theory Spec2Isabelle
  imports Complex_Main "HOL-Library.Word" "HOL-Library.Signed_Division"
begin

section \<open>SteadyTimer: a stopwatch and deadline timer over an asynchronous reactor\<close>

text \<open>
  The development follows \<^verbatim>\<open>src/BoostTimer/BoostTimer.h\<close>, the class
  \<^verbatim>\<open>TimerWrapper::SteadyTimer\<close>. Every member function of the class becomes a function
  on a record of its four fields. A member function that reads
  \<^verbatim>\<open>std::chrono::steady_clock::now()\<close> takes that reading as its first argument
  \<open>now\<close>. Invoking a caller's \<^verbatim>\<open>Action^\<close> is recorded by appending the action to a list
  of invoked actions, which the functions that can invoke one take and return beside
  the object.

  Scope of the model: one thread; an \<^verbatim>\<open>Action^\<close> is opaque, returns normally, and does
  not call back into the timer; the object is used between construction and disposal
  (both pointers non-null). \<^verbatim>\<open>Wait\<close>, the destructor and the finalizer take no part in
  the properties below and are left out.
\<close>

subsection \<open>Clock values\<close>

text \<open>
  A \<^verbatim>\<open>time_point\<close> and a \<^verbatim>\<open>duration\<close> hold a signed 64-bit tick count
  (\<^verbatim>\<open>long long\<close>). The ticks of \<^verbatim>\<open>steady_clock\<close> are nanoseconds. Arithmetic on the
  counts is arithmetic on 64-bit words; \<open>sint\<close> reads the signed value.
\<close>

type_synonym int32 = "32 word"
type_synonym int64 = "64 word"
type_synonym time_point = int64
type_synonym duration = int64

text \<open>
  \<^verbatim>\<open>std::chrono::milliseconds(milliseconds)\<close> passed where the timer expects a
  \<^verbatim>\<open>steady_clock::duration\<close>: the 32-bit argument is widened with its sign and
  multiplied by the tick ratio \<open>10\<^sup>6\<close>.
\<close>

definition chrono_milliseconds :: "int32 \<Rightarrow> duration" where
  "chrono_milliseconds milliseconds = scast milliseconds * 1000000"

text \<open>
  \<^verbatim>\<open>std::chrono::duration_cast\<close> from nanoseconds to a unit of \<open>ratio\<close> nanoseconds:
  the signed count divided by the ratio, the quotient truncated towards zero as C++
  integer division does.
\<close>

definition duration_cast :: "int \<Rightarrow> duration \<Rightarrow> int64" where
  "duration_cast ratio d = word_of_int (sint d sdiv ratio)"

text \<open>
  The implicit conversion of a \<^verbatim>\<open>long long\<close> to \<^verbatim>\<open>double\<close> in
  \<^verbatim>\<open>return elapsed.count();\<close>. A double has a 53-bit significand: an integer of
  magnitude at most \<open>2\<^sup>5\<^sup>3\<close> is kept as it is, a larger one is rounded to 53
  significant bits, ties to the even significand (\<open>excess_bits\<close> counts the bits
  beyond 53). The double is modelled by the real number it denotes.
\<close>

function excess_bits :: "int \<Rightarrow> nat" where
  "excess_bits a = (if a < 2 ^ 53 then 0 else Suc (excess_bits (a div 2)))"
  by pat_completeness auto
termination
  by (relation "measure nat") auto

definition round_to_significand :: "int \<Rightarrow> int" where
  "round_to_significand n =
     (let a = \<bar>n\<bar>;
          e = excess_bits a;
          q = a div 2 ^ e;
          r = a mod 2 ^ e;
          h = 2 ^ (e - 1);
          q' = (if h < r then q + 1 else if r = h then q + q mod 2 else q)
      in sgn n * (q' * 2 ^ e))"

definition double_of_int64 :: "int64 \<Rightarrow> real" where
  "double_of_int64 x =
     (if \<bar>sint x\<bar> \<le> 2 ^ 53 then real_of_int (sint x)
      else real_of_int (round_to_significand (sint x)))"

subsection \<open>The reactor and the deadline handle\<close>

text \<open>
  \<^verbatim>\<open>boost::system::error_code\<close> as a wait completion receives it: no error, or
  the cancelled indicator.
\<close>

datatype error_code = success | operation_aborted

text \<open>
  The only completion the class registers is the lambda of \<^verbatim>\<open>AsyncWait\<close>
  (lines 152 to 158), which captures the caller's handler:
  \<^verbatim>\<open>[handler](const error_code& ec) { if (!ec) { handler(); } }\<close>.
  Calling it with an error code appends the handler to the list of invoked actions
  when the code is \<open>success\<close>, and does nothing otherwise.
\<close>

datatype 'h completion = AsyncWaitLambda 'h

fun call :: "'h completion \<Rightarrow> error_code \<Rightarrow> 'h list \<Rightarrow> 'h list" where
  "call (AsyncWaitLambda handler) ec acts = (if ec = success then acts @ [handler] else acts)"

text \<open>
  \<^verbatim>\<open>boost::asio::io_context\<close>: the completions that are ready to be dispatched, each
  with the error code it will receive, in posting order, and the stopped flag.
  \<^verbatim>\<open>boost::asio::steady_timer\<close>: the armed expiry and the completions of the waits
  still pending on it. The timer is bound to the io_context: cancelling a wait posts its
  completion to the io_context.
\<close>

record 'h io_context =
  ready :: "('h completion \<times> error_code) list"
  stopped :: bool

record 'h steady_timer =
  expiry :: time_point
  pending :: "'h completion list"

text \<open>
  Modelled from the spec: \<^verbatim>\<open>steady_timer::cancel\<close> is Boost.Asio code, not part of the
  repository. Section 4.4: "cancels all pending asynchronous operations on this timer's
  deadline handle. Returns a count of operations cancelled"; "A cancelled operation's
  completion still runs (as part of the next run()), but with the cancelled indicator".
\<close>

definition cancel ::
  "'h io_context \<Rightarrow> 'h steady_timer \<Rightarrow> nat \<times> 'h io_context \<times> 'h steady_timer" where
  "cancel c t =
     (length (pending t),
      c\<lparr>ready := ready c @ map (\<lambda>w. (w, operation_aborted)) (pending t)\<rparr>,
      t\<lparr>pending := []\<rparr>)"

text \<open>
  Modelled from the spec: \<^verbatim>\<open>steady_timer::cancel_one\<close> is Boost.Asio code. Section 4.4:
  "cancels at most one pending operation"; the oldest pending wait is the one taken.
\<close>

definition cancel_one ::
  "'h io_context \<Rightarrow> 'h steady_timer \<Rightarrow> nat \<times> 'h io_context \<times> 'h steady_timer" where
  "cancel_one c t =
     (case pending t of
        [] \<Rightarrow> (0, c, t)
      | w # ws \<Rightarrow> (1, c\<lparr>ready := ready c @ [(w, operation_aborted)]\<rparr>, t\<lparr>pending := ws\<rparr>))"

text \<open>
  Modelled from the spec: \<^verbatim>\<open>steady_timer::expires_at\<close> is Boost.Asio code. Section 4.3:
  "arms the deadline handle to fire at an absolute ... instant ... Overwrites any
  previously armed, not-yet-fired deadline"; section 4.4: "Re-arming while Armed
  silently replaces the pending deadline (the previous one is implicitly cancelled by
  the underlying primitive's semantics)".
\<close>

definition expires_at ::
  "time_point \<Rightarrow> 'h io_context \<Rightarrow> 'h steady_timer \<Rightarrow> nat \<times> 'h io_context \<times> 'h steady_timer" where
  "expires_at tp c t = (case cancel c t of (n, c', t') \<Rightarrow> (n, c', t'\<lparr>expiry := tp\<rparr>))"

text \<open>
  Modelled from the spec: \<^verbatim>\<open>steady_timer::expires_from_now\<close> is Boost.Asio code.
  Section 4.3: "arms the deadline handle to fire durationMs milliseconds after the
  moment of the call. Overwrites any previously armed deadline."
\<close>

definition expires_from_now ::
  "time_point \<Rightarrow> duration \<Rightarrow> 'h io_context \<Rightarrow> 'h steady_timer
     \<Rightarrow> nat \<times> 'h io_context \<times> 'h steady_timer" where
  "expires_from_now now d c t = expires_at (now + d) c t"

text \<open>
  Modelled from the spec: \<^verbatim>\<open>steady_timer::expires_after\<close> is Boost.Asio code.
  Section 4.4, step 1: "Arms the deadline handle to fire durationMs milliseconds from
  the call instant".
\<close>

definition expires_after ::
  "time_point \<Rightarrow> duration \<Rightarrow> 'h io_context \<Rightarrow> 'h steady_timer
     \<Rightarrow> nat \<times> 'h io_context \<times> 'h steady_timer" where
  "expires_after now d c t = expires_at (now + d) c t"

text \<open>
  Modelled from the spec: \<^verbatim>\<open>steady_timer::async_wait\<close> is Boost.Asio code.
  Section 4.4, step 2: "Registers a completion"; the wait stays pending on the deadline
  handle until the deadline fires or the wait is cancelled.
\<close>

definition async_wait :: "'h completion \<Rightarrow> 'h steady_timer \<Rightarrow> 'h steady_timer" where
  "async_wait w t = t\<lparr>pending := pending t @ [w]\<rparr>"

text \<open>Dispatching a queue of ready completions, oldest first.\<close>

fun dispatch :: "('h completion \<times> error_code) list \<Rightarrow> 'h list \<Rightarrow> 'h list" where
  "dispatch [] acts = acts"
| "dispatch ((w, ec) # q) acts = dispatch q (call w ec acts)"

text \<open>
  Modelled from the spec: \<^verbatim>\<open>io_context::run\<close> is Boost.Asio code. Section 4.1:
  "blocks the calling thread, processing ready completions (timer expirations,
  cancellations) until no more work is outstanding. Returns when idle"; a reactor left
  stopped by a prior run "return[s] immediately without processing new work".
  The ready completions are dispatched first; then the calling thread blocks until the
  armed expiry, at which the waits still pending complete with no error. The actions
  are opaque, so no completion adds work, and the reactor is then out of work and
  stops.
\<close>

definition run ::
  "'h io_context \<Rightarrow> 'h steady_timer \<Rightarrow> 'h list \<Rightarrow> 'h io_context \<times> 'h steady_timer \<times> 'h list" where
  "run c t acts =
     (if stopped c then (c, t, acts)
      else (c\<lparr>ready := [], stopped := True\<rparr>,
            t\<lparr>pending := []\<rparr>,
            dispatch (map (\<lambda>w. (w, success)) (pending t)) (dispatch (ready c) acts)))"

text \<open>
  Modelled from the spec: \<^verbatim>\<open>io_context::reset\<close> is Boost.Asio code. Section 4.1:
  "clears the stopped state left by a prior run() so the reactor can be driven again".
\<close>

definition reset :: "'h io_context \<Rightarrow> 'h io_context" where
  "reset c = c\<lparr>stopped := False\<rparr>"

subsection \<open>The class\<close>

record 'h SteadyTimer =
  ioContext :: "'h io_context"
  timer :: "'h steady_timer"
  startTime :: time_point
  stopTime :: time_point

text \<open>
  The constructor (lines 38 to 42): a fresh io_context and a timer bound to it; the two
  time points are default-constructed, that is, at the clock's epoch.
\<close>

definition SteadyTimer_ctor :: "'h SteadyTimer" where
  "SteadyTimer_ctor =
     \<lparr>ioContext = \<lparr>ready = [], stopped = False\<rparr>,
      timer = \<lparr>expiry = 0, pending = []\<rparr>,
      startTime = 0,
      stopTime = 0\<rparr>"

text \<open>Lines 73 to 84.\<close>

definition Start :: "time_point \<Rightarrow> 'h SteadyTimer \<Rightarrow> 'h SteadyTimer" where
  "Start now s = s\<lparr>startTime := now\<rparr>"

definition Stop :: "time_point \<Rightarrow> 'h SteadyTimer \<Rightarrow> 'h SteadyTimer" where
  "Stop now s = s\<lparr>stopTime := now\<rparr>"

text \<open>
  Lines 90 to 114. The member functions are not \<^verbatim>\<open>const\<close>, so each returns its result
  together with the object, which its body leaves as it was.
\<close>

definition GetElapsedSeconds :: "'h SteadyTimer \<Rightarrow> real \<times> 'h SteadyTimer" where
  "GetElapsedSeconds s =
     (let elapsed = duration_cast 1000000000 (stopTime s - startTime s)
      in (double_of_int64 elapsed, s))"

definition GetElapsedMilliseconds :: "'h SteadyTimer \<Rightarrow> real \<times> 'h SteadyTimer" where
  "GetElapsedMilliseconds s =
     (let elapsed = duration_cast 1000000 (stopTime s - startTime s)
      in (double_of_int64 elapsed, s))"

definition GetElapsedNanoseconds :: "'h SteadyTimer \<Rightarrow> int64 \<times> 'h SteadyTimer" where
  "GetElapsedNanoseconds s =
     (let elapsed = duration_cast 1 (stopTime s - startTime s)
      in (elapsed, s))"

subsection \<open>Deadline scheduling\<close>

text \<open>
  A \<^verbatim>\<open>System::DateTime\<close> is given by the tick count of its value in UTC: 100-nanosecond
  ticks since 0001-01-01T00:00:00. \<^verbatim>\<open>DateTime::ToFileTime\<close> returns the ticks since
  1601-01-01T00:00:00 UTC, which is tick 504911232000000000, and raises for an earlier
  value. The parameter is a handle, \<^verbatim>\<open>DateTime^\<close>, which may be null: \<open>None\<close>.
\<close>

record DateTime =
  utcTicks :: int

datatype exn = NullReferenceException | ArgumentOutOfRangeException

definition ToFileTime :: "DateTime \<Rightarrow> exn + int64" where
  "ToFileTime time =
     (if utcTicks time < 504911232000000000 then Inl ArgumentOutOfRangeException
      else Inr (word_of_int (utcTicks time - 504911232000000000)))"

text \<open>
  \<^verbatim>\<open>std::chrono::system_clock::from_time_t\<close>: its argument counts seconds since
  1970-01-01T00:00:00 UTC; the result is the \<^verbatim>\<open>system_clock\<close> time point that many
  seconds after that epoch. The ticks of \<^verbatim>\<open>system_clock\<close> are 100 nanoseconds in the
  C++ library a C++/CLI program is built with, so the seconds are multiplied by \<open>10\<^sup>7\<close>,
  in the 64-bit count (where the product does not fit, the count wraps around).
\<close>

definition from_time_t :: "int64 \<Rightarrow> time_point" where
  "from_time_t t = t * 10000000"

text \<open>
  The \<^verbatim>\<open>system_clock\<close> time point that denotes the instant of a \<^verbatim>\<open>DateTime\<close>:
  1970-01-01T00:00:00 UTC is tick 621355968000000000 of \<^verbatim>\<open>DateTime\<close>, and both count
  100-nanosecond ticks. This is the yardstick the expiry of \<^verbatim>\<open>ExpiresAt\<close> is compared
  with; the source does not compute it.
\<close>

definition system_time_of :: "DateTime \<Rightarrow> time_point" where
  "system_time_of time = word_of_int (utcTicks time - 621355968000000000)"

text \<open>
  Lines 128 to 133. The source hands the \<^verbatim>\<open>system_clock\<close> time point to
  \<^verbatim>\<open>expires_at\<close> as it is: no mapping between the two clocks appears in the source, and
  the tick count reaches the deadline handle unchanged.
\<close>

definition ExpiresAt :: "DateTime option \<Rightarrow> 'h SteadyTimer \<Rightarrow> exn + 'h SteadyTimer" where
  "ExpiresAt time s =
     (case time of
        None \<Rightarrow> Inl NullReferenceException
      | Some dt \<Rightarrow>
          (case ToFileTime dt of
             Inl e \<Rightarrow> Inl e
           | Inr ft \<Rightarrow>
               (let expiry = from_time_t ft
                in case expires_at expiry (ioContext s) (timer s) of
                     (n, c, t) \<Rightarrow> Inr (s\<lparr>ioContext := c, timer := t\<rparr>))))"

text \<open>Lines 139 to 142.\<close>

definition ExpiresFromNow :: "time_point \<Rightarrow> int32 \<Rightarrow> 'h SteadyTimer \<Rightarrow> 'h SteadyTimer" where
  "ExpiresFromNow now milliseconds s =
     (case expires_from_now now (chrono_milliseconds milliseconds) (ioContext s) (timer s) of
        (n, c, t) \<Rightarrow> s\<lparr>ioContext := c, timer := t\<rparr>)"

subsection \<open>Asynchronous wait and cancellation\<close>

text \<open>
  \<^verbatim>\<open>AsyncWait\<close>, lines 149 to 162, statement by statement: line 151 arms the deadline,
  lines 152 to 158 register the completion, line 160 drives the reactor, line 161
  resets it. The first two statements return at once; the third blocks.
\<close>

definition AsyncWait_arm :: "time_point \<Rightarrow> int32 \<Rightarrow> 'h SteadyTimer \<Rightarrow> 'h SteadyTimer" where
  "AsyncWait_arm now milliseconds s =
     (case expires_after now (chrono_milliseconds milliseconds) (ioContext s) (timer s) of
        (n, c, t) \<Rightarrow> s\<lparr>ioContext := c, timer := t\<rparr>)"

definition AsyncWait_register :: "'h \<Rightarrow> 'h SteadyTimer \<Rightarrow> 'h SteadyTimer" where
  "AsyncWait_register handler s = s\<lparr>timer := async_wait (AsyncWaitLambda handler) (timer s)\<rparr>"

definition AsyncWait_run :: "'h SteadyTimer \<times> 'h list \<Rightarrow> 'h SteadyTimer \<times> 'h list" where
  "AsyncWait_run sa =
     (case sa of (s, acts) \<Rightarrow>
        (case run (ioContext s) (timer s) acts of
           (c, t, acts') \<Rightarrow> (s\<lparr>ioContext := c, timer := t\<rparr>, acts')))"

definition AsyncWait_reset :: "'h SteadyTimer \<times> 'h list \<Rightarrow> 'h SteadyTimer \<times> 'h list" where
  "AsyncWait_reset sa = (case sa of (s, acts) \<Rightarrow> (s\<lparr>ioContext := reset (ioContext s)\<rparr>, acts))"

definition AsyncWait ::
  "time_point \<Rightarrow> int32 \<Rightarrow> 'h \<Rightarrow> 'h SteadyTimer \<times> 'h list \<Rightarrow> 'h SteadyTimer \<times> 'h list" where
  "AsyncWait now milliseconds handler sa =
     (case sa of (s, acts) \<Rightarrow>
        AsyncWait_reset
          (AsyncWait_run
            (AsyncWait_register handler (AsyncWait_arm now milliseconds s), acts)))"

text \<open>
  Lines 168 to 180. The count is a \<^verbatim>\<open>std::size_t\<close> returned as \<^verbatim>\<open>int\<close>.
\<close>

definition Cancel :: "'h SteadyTimer \<Rightarrow> int32 \<times> 'h SteadyTimer" where
  "Cancel s =
     (case cancel (ioContext s) (timer s) of
        (n, c, t) \<Rightarrow> (of_nat n, s\<lparr>ioContext := c, timer := t\<rparr>))"

definition CancelOne :: "'h SteadyTimer \<Rightarrow> int32 \<times> 'h SteadyTimer" where
  "CancelOne s =
     (case cancel_one (ioContext s) (timer s) of
        (n, c, t) \<Rightarrow> (of_nat n, s\<lparr>ioContext := c, timer := t\<rparr>))"

subsection \<open>Sequences of elapsed-time queries\<close>

text \<open>
  The three queries under one type, so that any interleaving of them is a list: a query
  returns a \<^verbatim>\<open>double\<close> or an \<^verbatim>\<open>Int64\<close>, and a list of queries is asked in order, each
  on the object the one before it returned.
\<close>

datatype query = Seconds | Milliseconds | Nanoseconds

datatype reading = Double real | Int64 int64

fun ask :: "query \<Rightarrow> 'h SteadyTimer \<Rightarrow> reading \<times> 'h SteadyTimer" where
  "ask Seconds s = (case GetElapsedSeconds s of (x, s') \<Rightarrow> (Double x, s'))"
| "ask Milliseconds s = (case GetElapsedMilliseconds s of (x, s') \<Rightarrow> (Double x, s'))"
| "ask Nanoseconds s = (case GetElapsedNanoseconds s of (x, s') \<Rightarrow> (Int64 x, s'))"

fun ask_all :: "query list \<Rightarrow> 'h SteadyTimer \<Rightarrow> reading list \<times> 'h SteadyTimer" where
  "ask_all [] s = ([], s)"
| "ask_all (q # qs) s =
     (case ask q s of (r, s') \<Rightarrow> (case ask_all qs s' of (rs, s'') \<Rightarrow> (r # rs, s'')))"

subsection \<open>States between calls, and sequences of calls\<close>

text \<open>
  Between two calls of the public member functions the reactor holds no ready
  completion, no wait is pending on the deadline handle, and the reactor is not stopped:
  the constructor establishes this and every member function re-establishes it.
\<close>

definition idle :: "'h SteadyTimer \<Rightarrow> bool" where
  "idle s \<longleftrightarrow> ready (ioContext s) = [] \<and> pending (timer s) = [] \<and> \<not> stopped (ioContext s)"

text \<open>
  Strictly sequential calls of \<^verbatim>\<open>AsyncWait\<close> on one instance: each call is made, with
  its own clock reading, duration and handler, on the object the call before it
  returned.
\<close>

fun AsyncWait_all ::
  "(time_point \<times> int32 \<times> 'h) list \<Rightarrow> 'h SteadyTimer \<times> 'h list \<Rightarrow> 'h SteadyTimer \<times> 'h list" where
  "AsyncWait_all [] sa = sa"
| "AsyncWait_all ((now, milliseconds, handler) # calls) sa =
     AsyncWait_all calls (AsyncWait now milliseconds handler sa)"

text \<open>The two recorded instants of \<open>s'\<close> are those of \<open>s\<close>.\<close>

definition same_instants :: "'h SteadyTimer \<Rightarrow> 'h SteadyTimer \<Rightarrow> bool" where
  "same_instants s s' \<longleftrightarrow> startTime s' = startTime s \<and> stopTime s' = stopTime s"

section \<open>Properties\<close>

subsection \<open>Arithmetic of the tick counts\<close>

lemma sint_diff_no_wrap:
  fixes t0 t1 :: int64
  assumes "sint t0 \<le> sint t1" "sint t1 - sint t0 < 2 ^ 63"
  shows "sint (t1 - t0) = sint t1 - sint t0"
  using assms by (simp add: sint_word_diff signed_take_bit_int_eq_self)

lemma sdiv_nonneg: "0 \<le> k \<Longrightarrow> 0 < r \<Longrightarrow> k sdiv r = k div (r::int)"
  by (simp add: signed_divide_int_def sgn_if)

lemma abs_sdiv: "0 < r \<Longrightarrow> \<bar>k sdiv r\<bar> = \<bar>k\<bar> div (r::int)"
  by (auto simp: signed_divide_int_def sgn_if abs_mult pos_imp_zdiv_nonneg_iff)

lemma abs_sint64: "\<bar>sint (d::int64)\<bar> \<le> 2 ^ 63"
  using sint_ge [of d] sint_lt [of d] by simp

lemma abs_sdiv_sint64:
  assumes "1 < r"
  shows "\<bar>sint (d::int64) sdiv r\<bar> \<le> 2 ^ 63 div r"
proof -
  have "\<bar>sint d sdiv r\<bar> = \<bar>sint d\<bar> div r"
    using assms by (simp add: abs_sdiv)
  also have "\<dots> \<le> 2 ^ 63 div r"
    using abs_sint64 [of d] by (rule zdiv_mono1) (use assms in simp)
  finally show ?thesis .
qed

text \<open>A cast to a coarser unit never overflows: the quotient fits the 64-bit count.\<close>

lemma sint_duration_cast:
  assumes "1 < r"
  shows "sint (duration_cast r d) = sint d sdiv r"
proof -
  have "\<bar>sint d sdiv r\<bar> \<le> 2 ^ 63 div r"
    using assms by (rule abs_sdiv_sint64)
  also have "\<dots> < 2 ^ 63"
    using assms by (simp add: int_div_less_self)
  finally have "- (2 ^ 63) \<le> sint d sdiv r" "sint d sdiv r < 2 ^ 63"
    by linarith+
  then show ?thesis
    by (simp add: duration_cast_def sint_sbintrunc' signed_take_bit_int_eq_self)
qed

lemma duration_cast_one: "duration_cast 1 d = d"
  by (simp add: duration_cast_def)

lemma double_of_int64_exact:
  "\<bar>sint x\<bar> \<le> 2 ^ 53 \<Longrightarrow> double_of_int64 x = real_of_int (sint x)"
  by (simp add: double_of_int64_def)

text \<open>
  A count of a unit of at least 1024 nanoseconds has magnitude at most
  \<open>2\<^sup>6\<^sup>3 / 1024 = 2\<^sup>5\<^sup>3\<close>, so its conversion to a double is exact.
\<close>

lemma double_of_duration_cast:
  assumes "1024 \<le> r"
  shows "double_of_int64 (duration_cast r d) = real_of_int (sint d sdiv r)"
proof -
  have "\<bar>sint (duration_cast r d)\<bar> \<le> 2 ^ 63 div r"
    using assms abs_sdiv_sint64 [of r d] by (simp add: sint_duration_cast)
  also have "\<dots> \<le> 2 ^ 63 div 1024"
    using assms by (intro zdiv_mono2) simp_all
  also have "\<dots> = 2 ^ 53" by simp
  finally show ?thesis
    using assms by (simp add: double_of_int64_exact sint_duration_cast)
qed

lemma sint_scast_32_64: "sint (scast (d::int32) :: int64) = sint d"
  by (rule sint_up_scast) (simp add: is_up)

text \<open>The widening of a 32-bit millisecond count to nanoseconds never overflows.\<close>

lemma sint_chrono_milliseconds: "sint (chrono_milliseconds d) = sint d * 1000000"
proof -
  have "- (2 ^ 31) \<le> sint d" "sint d < 2 ^ 31"
    using sint_ge [of d] sint_lt [of d] by simp_all
  then have "- (2 ^ 63) \<le> sint d * 1000000 \<and> sint d * 1000000 < 2 ^ 63"
    by simp
  then have "signed_take_bit 63 (sint d * 1000000) = sint d * 1000000"
    by (intro signed_take_bit_int_eq_self) simp_all
  then show ?thesis
    by (simp add: chrono_milliseconds_def sint_word_mult sint_scast_32_64)
qed

text \<open>
  A clock reading between 0 and \<open>2\<^sup>6\<^sup>2\<close> nanoseconds plus a 32-bit millisecond
  count stays inside the 64-bit count: the sum of the words is the sum of the integers.
\<close>

lemma sint_reading_plus_milliseconds:
  fixes now :: time_point and d :: int32
  assumes "0 \<le> sint now" and "sint now < 2 ^ 62"
  shows "sint (now + scast d * 1000000) = sint now + sint d * 1000000"
proof -
  have "- (2 ^ 31) \<le> sint d" "sint d < 2 ^ 31"
    using sint_ge [of d] sint_lt [of d] by simp_all
  then have "- (2 ^ 63) \<le> sint now + sint d * 1000000" "sint now + sint d * 1000000 < 2 ^ 63"
    using assms by simp_all
  then show ?thesis
    using sint_chrono_milliseconds [of d]
    by (simp add: chrono_milliseconds_def sint_word_add signed_take_bit_int_eq_self)
qed

subsection \<open>The stopwatch\<close>

lemma elapsed_after_Start_Stop:
  "stopTime (Stop t1 (Start t0 s)) - startTime (Stop t1 (Start t0 s)) = t1 - t0"
  by (simp add: Start_def Stop_def)

text \<open>
  Claim C3. For clock readings \<open>t0 \<le> t1\<close> whose difference fits the 64-bit nanosecond
  count, \<^verbatim>\<open>Start()\<close> at \<open>t0\<close> and \<^verbatim>\<open>Stop()\<close> at \<open>t1\<close> make
  \<^verbatim>\<open>GetElapsedMilliseconds()\<close> return the floor of \<open>(t1 - t0) / 10\<^sup>6\<close>,
  \<^verbatim>\<open>GetElapsedSeconds()\<close> the floor of \<open>(t1 - t0) / 10\<^sup>9\<close>, and
  \<^verbatim>\<open>GetElapsedNanoseconds()\<close> the difference itself: whole units, truncated and not
  rounded.
\<close>

theorem GetElapsed_truncates:
  fixes t0 t1 :: time_point
  assumes "sint t0 \<le> sint t1" and "sint t1 - sint t0 < 2 ^ 63"
  shows "fst (GetElapsedMilliseconds (Stop t1 (Start t0 s))) =
           real_of_int \<lfloor>real_of_int (sint t1 - sint t0) / 1000000\<rfloor> \<and>
         fst (GetElapsedSeconds (Stop t1 (Start t0 s))) =
           real_of_int \<lfloor>real_of_int (sint t1 - sint t0) / 1000000000\<rfloor> \<and>
         sint (fst (GetElapsedNanoseconds (Stop t1 (Start t0 s)))) = sint t1 - sint t0"
proof -
  have d: "sint (t1 - t0) = sint t1 - sint t0"
    using assms by (rule sint_diff_no_wrap)
  have nonneg: "0 \<le> sint t1 - sint t0"
    using assms by simp
  have fl: "\<lfloor>real_of_int k / real_of_int r\<rfloor> = k sdiv r" if "0 \<le> k" "0 < r" for k r :: int
    using that by (simp add: sdiv_nonneg floor_divide_of_int_eq)
  have ms: "fst (GetElapsedMilliseconds (Stop t1 (Start t0 s))) =
      real_of_int ((sint t1 - sint t0) sdiv 1000000)"
    by (simp add: GetElapsedMilliseconds_def elapsed_after_Start_Stop double_of_duration_cast d)
  have sec: "fst (GetElapsedSeconds (Stop t1 (Start t0 s))) =
      real_of_int ((sint t1 - sint t0) sdiv 1000000000)"
    by (simp add: GetElapsedSeconds_def elapsed_after_Start_Stop double_of_duration_cast d)
  have ns: "sint (fst (GetElapsedNanoseconds (Stop t1 (Start t0 s)))) = sint t1 - sint t0"
    by (simp add: GetElapsedNanoseconds_def elapsed_after_Start_Stop duration_cast_one d)
  from ms sec ns fl [OF nonneg, of 1000000] fl [OF nonneg, of 1000000000]
  show ?thesis by simp
qed

text \<open>
  At \<open>t0 = 5\<close> and \<open>t1 = 4000999504\<close> nanoseconds the interval is 4.000999499 seconds:
  4000 milliseconds and 4 seconds are reported, not 4001.
\<close>

theorem GetElapsed_truncates_witness:
  "sint (5 :: time_point) \<le> sint (4000999504 :: time_point) \<and>
   sint (4000999504 :: time_point) - sint (5 :: time_point) < 2 ^ 63 \<and>
   fst (GetElapsedMilliseconds
         (Stop 4000999504 (Start 5 (SteadyTimer_ctor :: unit SteadyTimer)))) = 4000 \<and>
   fst (GetElapsedSeconds
         (Stop 4000999504 (Start 5 (SteadyTimer_ctor :: unit SteadyTimer)))) = 4 \<and>
   sint (fst (GetElapsedNanoseconds
         (Stop 4000999504 (Start 5 (SteadyTimer_ctor :: unit SteadyTimer))))) = 4000999499"
  using GetElapsed_truncates [of 5 4000999504 "SteadyTimer_ctor :: unit SteadyTimer"]
  by simp

text \<open>
  When \<^verbatim>\<open>Stop\<close> precedes \<^verbatim>\<open>Start\<close> the difference is negative and the cast truncates
  towards zero: \<open>-1.5\<close> milliseconds are reported as \<open>-1\<close>.
\<close>

lemma GetElapsed_negative_truncates_towards_zero:
  "fst (GetElapsedMilliseconds
         (Stop 0 (Start 1500000 (SteadyTimer_ctor :: unit SteadyTimer)))) = - 1"
  by (simp add: GetElapsedMilliseconds_def elapsed_after_Start_Stop double_of_duration_cast
      signed_divide_int_def)

text \<open>
  Claim C10. For every pair of recorded instants the \<^verbatim>\<open>double\<close> returned by
  \<^verbatim>\<open>GetElapsedSeconds\<close> and by \<^verbatim>\<open>GetElapsedMilliseconds\<close> is the truncated integer
  count of the unit, converted without rounding: a whole number, with no fraction of
  the unit.
\<close>

theorem GetElapsed_double_is_whole:
  "fst (GetElapsedSeconds s) = real_of_int (sint (stopTime s - startTime s) sdiv 1000000000) \<and>
   fst (GetElapsedMilliseconds s) = real_of_int (sint (stopTime s - startTime s) sdiv 1000000) \<and>
   fst (GetElapsedSeconds s) \<in> \<int> \<and>
   fst (GetElapsedMilliseconds s) \<in> \<int>"
  by (simp add: GetElapsedSeconds_def GetElapsedMilliseconds_def double_of_duration_cast)

lemma ask_state: "snd (ask q s) = s"
  by (cases q) (simp_all add: GetElapsedSeconds_def GetElapsedMilliseconds_def
      GetElapsedNanoseconds_def)

lemma ask_all_eq: "ask_all qs s = (map (\<lambda>q. fst (ask q s)) qs, s)"
proof (induction qs)
  case Nil
  show ?case by simp
next
  case (Cons q qs)
  obtain r where r: "ask q s = (r, s)"
    using ask_state [of q s] by (cases "ask q s") simp
  with Cons show ?case by simp
qed

text \<open>
  Claim C9. Any sequence of the three elapsed-time queries leaves the object as it was,
  and each query in the sequence returns what it returns when asked alone; what a query
  returns is determined by the two recorded instants, whatever the reactor and the
  deadline handle hold.
\<close>

theorem GetElapsed_queries_pure:
  "ask_all qs s = (map (\<lambda>q. fst (ask q s)) qs, s) \<and>
   fst (ask q s) =
     fst (ask q \<lparr>ioContext = c, timer = t, startTime = startTime s, stopTime = stopTime s\<rparr>)"
proof
  show "ask_all qs s = (map (\<lambda>q. fst (ask q s)) qs, s)"
    by (rule ask_all_eq)
  show "fst (ask q s) =
     fst (ask q \<lparr>ioContext = c, timer = t, startTime = startTime s, stopTime = stopTime s\<rparr>)"
    by (cases q) (simp_all add: GetElapsedSeconds_def GetElapsedMilliseconds_def
        GetElapsedNanoseconds_def)
qed

subsection \<open>Frame of the stopwatch, and the reactor between calls\<close>

lemmas prim_defs = cancel_def cancel_one_def expires_at_def expires_after_def
  expires_from_now_def async_wait_def run_def reset_def

lemmas AsyncWait_defs = AsyncWait_def AsyncWait_arm_def AsyncWait_register_def
  AsyncWait_run_def AsyncWait_reset_def

lemma idle_ctor: "idle SteadyTimer_ctor"
  by (simp add: idle_def SteadyTimer_ctor_def)

text \<open>From a state between calls, \<^verbatim>\<open>AsyncWait\<close> as a whole: the new expiry, one action.\<close>

lemma AsyncWait_idle:
  assumes "idle s"
  shows "AsyncWait now d h (s, acts) =
           (s\<lparr>timer := (timer s)\<lparr>expiry := now + chrono_milliseconds d\<rparr>\<rparr>, acts @ [h])"
  using assms
  by (simp add: idle_def AsyncWait_defs prim_defs)

lemma idle_AsyncWait: "idle s \<Longrightarrow> idle (fst (AsyncWait now d h (s, acts)))"
  by (simp add: AsyncWait_idle) (simp add: idle_def)

lemma AsyncWait_not_stopped: "\<not> stopped (ioContext (fst (AsyncWait now d h sa)))"
  by (cases sa) (simp add: AsyncWait_defs prim_defs split: prod.splits)

lemma AsyncWait_all_idle:
  "idle s \<Longrightarrow>
     idle (fst (AsyncWait_all calls (s, acts))) \<and>
     snd (AsyncWait_all calls (s, acts)) = acts @ map (\<lambda>(now, d, h). h) calls"
proof (induction calls arbitrary: s acts)
  case Nil
  then show ?case by simp
next
  case (Cons x calls)
  obtain now d h where call: "x = (now, d, h)" by (cases x)
  let ?s' = "s\<lparr>timer := (timer s)\<lparr>expiry := now + chrono_milliseconds d\<rparr>\<rparr>"
  have step: "AsyncWait now d h (s, acts) = (?s', acts @ [h])"
    using Cons.prems by (rule AsyncWait_idle)
  have "idle ?s'" using Cons.prems by (simp add: idle_def)
  from Cons.IH [OF this, of "acts @ [h]"] show ?case
    by (simp add: call step)
qed

text \<open>Every public member function keeps the object in a state between calls.\<close>

lemma idle_preserved:
  "idle s \<Longrightarrow> idle (Start now s)"
  "idle s \<Longrightarrow> idle (Stop now s)"
  "idle s \<Longrightarrow> idle (snd (ask q s))"
  "idle s \<Longrightarrow> idle (ExpiresFromNow now d s)"
  "idle s \<Longrightarrow> ExpiresAt time s = Inr s' \<Longrightarrow> idle s'"
  "idle s \<Longrightarrow> idle (snd (Cancel s))"
  "idle s \<Longrightarrow> idle (snd (CancelOne s))"
  "idle s \<Longrightarrow> idle (fst (AsyncWait now d h (s, acts)))"
  by (auto simp: idle_def Start_def Stop_def ask_state ExpiresFromNow_def ExpiresAt_def
      Cancel_def CancelOne_def AsyncWait_defs prim_defs split: option.splits sum.splits)

text \<open>
  Without the reset of line 161 a second wait would find the reactor stopped, return at
  once, and leave the second handler uninvoked.
\<close>

lemma run_without_reset:
  "idle s \<Longrightarrow>
   snd (AsyncWait_run (AsyncWait_register h2 (AsyncWait_arm now2 d2
     (fst (AsyncWait_run (AsyncWait_register h1 (AsyncWait_arm now1 d1 s), acts)))),
     snd (AsyncWait_run (AsyncWait_register h1 (AsyncWait_arm now1 d1 s), acts)))) = acts @ [h1]"
  by (simp add: idle_def AsyncWait_defs prim_defs)

text \<open>
  A \<^verbatim>\<open>Cancel\<close> issued before \<^verbatim>\<open>AsyncWait\<close> finds nothing pending and does not keep the
  later wait from firing.
\<close>

lemma Cancel_before_AsyncWait:
  "idle s \<Longrightarrow> fst (Cancel s) = 0 \<and> snd (AsyncWait now d h (snd (Cancel s), acts)) = acts @ [h]"
  by (simp add: idle_def Cancel_def AsyncWait_defs prim_defs)

text \<open>The object after each of the four statements of \<^verbatim>\<open>AsyncWait\<close>.\<close>

lemma AsyncWait_arm_state:
  "expiry (timer (AsyncWait_arm now d s)) = now + scast d * 1000000 \<and>
   pending (timer (AsyncWait_arm now d s)) = [] \<and>
   ready (ioContext (AsyncWait_arm now d s)) =
     ready (ioContext s) @ map (\<lambda>w. (w, operation_aborted)) (pending (timer s)) \<and>
   stopped (ioContext (AsyncWait_arm now d s)) = stopped (ioContext s)"
  by (simp add: AsyncWait_arm_def chrono_milliseconds_def prim_defs)

lemma AsyncWait_register_state:
  "expiry (timer (AsyncWait_register h s)) = expiry (timer s) \<and>
   pending (timer (AsyncWait_register h s)) = pending (timer s) @ [AsyncWaitLambda h] \<and>
   ioContext (AsyncWait_register h s) = ioContext s"
  by (simp add: AsyncWait_register_def prim_defs)

lemma AsyncWait_run_state:
  assumes "\<not> stopped (ioContext s)" and "ready (ioContext s) = []"
    and "pending (timer s) = [AsyncWaitLambda h]"
  shows "snd (AsyncWait_run (s, acts)) = acts @ [h] \<and>
         stopped (ioContext (fst (AsyncWait_run (s, acts)))) \<and>
         ready (ioContext (fst (AsyncWait_run (s, acts)))) = [] \<and>
         pending (timer (fst (AsyncWait_run (s, acts)))) = [] \<and>
         expiry (timer (fst (AsyncWait_run (s, acts)))) = expiry (timer s)"
  using assms by (simp add: AsyncWait_run_def prim_defs)

lemma AsyncWait_expiry:
  "expiry (timer (fst (AsyncWait now d h (s, acts)))) = now + scast d * 1000000"
  by (simp add: AsyncWait_defs chrono_milliseconds_def prim_defs split: prod.splits)

lemma same_instants_ExpiresAt:
  "case ExpiresAt time s of Inl e \<Rightarrow> True | Inr s' \<Rightarrow> same_instants s s'"
  by (simp add: ExpiresAt_def same_instants_def prim_defs split: option.splits sum.splits)

lemma same_instants_AsyncWait: "same_instants s (fst (AsyncWait now d h (s, acts)))"
  by (simp add: AsyncWait_defs same_instants_def prim_defs split: prod.splits)

text \<open>
  Claim C8. \<^verbatim>\<open>Start()\<close> writes the clock reading into \<open>startTime\<close> and \<^verbatim>\<open>Stop()\<close>
  into \<open>stopTime\<close>; each is total, returns the object only, and leaves the other
  instant, the reactor and the deadline handle as they were. No other member function
  changes either instant: not the three queries, \<^verbatim>\<open>ExpiresFromNow\<close>, \<^verbatim>\<open>ExpiresAt\<close>
  (when it returns), \<^verbatim>\<open>AsyncWait\<close>, \<^verbatim>\<open>Cancel\<close> or \<^verbatim>\<open>CancelOne\<close>.
\<close>

theorem Start_Stop_frame:
  "startTime (Start now s) = now \<and>
   stopTime (Start now s) = stopTime s \<and>
   ioContext (Start now s) = ioContext s \<and>
   timer (Start now s) = timer s \<and>
   stopTime (Stop now s) = now \<and>
   startTime (Stop now s) = startTime s \<and>
   ioContext (Stop now s) = ioContext s \<and>
   timer (Stop now s) = timer s \<and>
   same_instants s (snd (ask q s)) \<and>
   same_instants s (ExpiresFromNow now d s) \<and>
   (case ExpiresAt time s of Inl e \<Rightarrow> True | Inr s' \<Rightarrow> same_instants s s') \<and>
   same_instants s (fst (AsyncWait now d h (s, acts))) \<and>
   same_instants s (snd (Cancel s)) \<and>
   same_instants s (snd (CancelOne s))"
proof -
  have "same_instants s (snd (ask q s))"
    by (simp add: ask_state same_instants_def)
  moreover have "same_instants s (ExpiresFromNow now d s)"
    by (simp add: ExpiresFromNow_def same_instants_def prim_defs)
  moreover have "same_instants s (snd (Cancel s))" "same_instants s (snd (CancelOne s))"
    by (simp_all add: Cancel_def CancelOne_def same_instants_def prim_defs split: list.splits)
  ultimately show ?thesis
    using same_instants_ExpiresAt [where s = s and time = time]
      same_instants_AsyncWait [where s = s and now = now and d = d and h = h and acts = acts]
    by (simp add: Start_def Stop_def)
qed

text \<open>
  On a fresh object, \<^verbatim>\<open>Stop\<close> at 7 and \<^verbatim>\<open>Start\<close> at 42 leave exactly these two
  instants, and an \<^verbatim>\<open>ExpiresAt\<close> that returns keeps them.
\<close>

theorem Start_Stop_frame_witness:
  "Start 42 (Stop 7 (SteadyTimer_ctor :: unit SteadyTimer)) =
     \<lparr>ioContext = \<lparr>ready = [], stopped = False\<rparr>, timer = \<lparr>expiry = 0, pending = []\<rparr>,
      startTime = 42, stopTime = 7\<rparr> \<and>
   (case ExpiresAt (Some \<lparr>utcTicks = 639028224000000000\<rparr>)
           (Start 42 (Stop 7 (SteadyTimer_ctor :: unit SteadyTimer))) of
      Inl e \<Rightarrow> False
    | Inr s' \<Rightarrow> startTime s' = 42 \<and> stopTime s' = 7)"
proof -
  let ?s = "Stop 7 (SteadyTimer_ctor :: unit SteadyTimer)"
  have a: "Start 42 ?s = \<lparr>ioContext = \<lparr>ready = [], stopped = False\<rparr>,
      timer = \<lparr>expiry = 0, pending = []\<rparr>, startTime = 42, stopTime = 7\<rparr>"
    by (simp add: SteadyTimer_ctor_def Start_def Stop_def)
  obtain s' where s': "ExpiresAt (Some \<lparr>utcTicks = 639028224000000000\<rparr>) (Start 42 ?s) = Inr s'"
    by (simp add: ExpiresAt_def ToFileTime_def prim_defs)
  from Start_Stop_frame [where s = "Start 42 ?s"
      and time = "Some \<lparr>utcTicks = 639028224000000000\<rparr>"] s'
  have "same_instants (Start 42 ?s) s'" by simp
  then have "startTime s' = 42 \<and> stopTime s' = 7"
    by (simp add: same_instants_def a)
  with a s' show ?thesis by simp
qed

subsection \<open>Asynchronous wait\<close>

text \<open>
  Claim C1. The completion registered by \<^verbatim>\<open>AsyncWait(d, h)\<close> invokes \<open>h\<close> once when
  it is called without the cancelled indicator and not at all when it is called with
  it. Hence, from a state between calls, \<^verbatim>\<open>AsyncWait(d, h)\<close> invokes \<open>h\<close> exactly
  once; and when \<^verbatim>\<open>Cancel\<close> or \<^verbatim>\<open>CancelOne\<close> is applied after the wait is registered
  and before its deadline elapses, the cancellation takes that one wait, the reactor
  runs its completion with the cancelled indicator, and \<open>h\<close> is not invoked.
  \<^verbatim>\<open>AsyncWait\<close> returns the object and the invoked actions only: no error or status.
\<close>

theorem AsyncWait_handler_gated:
  assumes "idle s"
  shows "call (AsyncWaitLambda h) success acts = acts @ [h] \<and>
         call (AsyncWaitLambda h) operation_aborted acts = acts \<and>
         snd (AsyncWait now d h (s, acts)) = acts @ [h] \<and>
         fst (Cancel (AsyncWait_register h (AsyncWait_arm now d s))) = 1 \<and>
         snd (AsyncWait_reset (AsyncWait_run
               (snd (Cancel (AsyncWait_register h (AsyncWait_arm now d s))), acts))) = acts \<and>
         fst (CancelOne (AsyncWait_register h (AsyncWait_arm now d s))) = 1 \<and>
         snd (AsyncWait_reset (AsyncWait_run
               (snd (CancelOne (AsyncWait_register h (AsyncWait_arm now d s))), acts))) = acts"
  using assms
  by (simp add: AsyncWait_idle)
    (simp add: idle_def AsyncWait_defs prim_defs Cancel_def CancelOne_def)

theorem AsyncWait_handler_gated_witness:
  "idle (SteadyTimer_ctor :: string SteadyTimer) \<and>
   snd (AsyncWait 1000 50 ''h'' (SteadyTimer_ctor, [])) = [''h''] \<and>
   fst (Cancel (AsyncWait_register ''h'' (AsyncWait_arm 1000 50 SteadyTimer_ctor))) = 1 \<and>
   snd (AsyncWait_reset (AsyncWait_run
         (snd (Cancel (AsyncWait_register ''h'' (AsyncWait_arm 1000 50 SteadyTimer_ctor))),
          []))) = []"
  using AsyncWait_handler_gated [OF idle_ctor, of "''h''" "[]" 1000 50]
  by (simp add: idle_ctor)

text \<open>
  Claim C2. \<^verbatim>\<open>AsyncWait\<close> arms the deadline, registers the completion, runs the
  reactor and resets it, in this order. From a state between calls: after line 151 the
  deadline handle is armed at the clock reading plus \<open>durationMs\<close> milliseconds and no
  wait is pending; after lines 152 to 158 the one pending wait is the lambda that
  captures the handler, at that expiry; after line 160 the handler has been invoked
  once, nothing is ready or pending, and the reactor is stopped; after line 161 the
  reactor is not stopped, the expiry is still the armed one, and the object is again in
  a state between calls. Whatever the state \<open>s0\<close> it is called in, the reactor is not
  stopped when \<^verbatim>\<open>AsyncWait\<close> returns. Strictly sequential calls invoke their handlers
  once each, in call order.
\<close>

theorem AsyncWait_sequential:
  assumes "idle s"
  shows "AsyncWait now d h (s, acts) =
           AsyncWait_reset (AsyncWait_run (AsyncWait_register h (AsyncWait_arm now d s), acts)) \<and>
         \<not> stopped (ioContext (fst (AsyncWait now d h (s0, acts)))) \<and>
         idle (fst (AsyncWait now d h (s, acts))) \<and>
         snd (AsyncWait now d h (s, acts)) = acts @ [h] \<and>
         idle (fst (AsyncWait_all calls (s, acts))) \<and>
         snd (AsyncWait_all calls (s, acts)) = acts @ map (\<lambda>(now, d, h). h) calls \<and>
         expiry (timer (AsyncWait_arm now d s)) = now + scast d * 1000000 \<and>
         pending (timer (AsyncWait_arm now d s)) = [] \<and>
         expiry (timer (AsyncWait_register h (AsyncWait_arm now d s))) =
           now + scast d * 1000000 \<and>
         pending (timer (AsyncWait_register h (AsyncWait_arm now d s))) = [AsyncWaitLambda h] \<and>
         snd (AsyncWait_run (AsyncWait_register h (AsyncWait_arm now d s), acts)) = acts @ [h] \<and>
         stopped (ioContext (fst (AsyncWait_run
           (AsyncWait_register h (AsyncWait_arm now d s), acts)))) \<and>
         pending (timer (fst (AsyncWait_run
           (AsyncWait_register h (AsyncWait_arm now d s), acts)))) = [] \<and>
         expiry (timer (fst (AsyncWait now d h (s, acts)))) = now + scast d * 1000000 \<and>
         (0 \<le> sint now \<and> sint now < 2 ^ 62 \<longrightarrow>
            sint (expiry (timer (AsyncWait_arm now d s))) = sint now + sint d * 1000000 \<and>
            sint (expiry (timer (fst (AsyncWait now d h (s, acts))))) =
              sint now + sint d * 1000000)"
proof -
  let ?a = "AsyncWait_arm now d s"
  let ?r = "AsyncWait_register h ?a"
  have arm: "expiry (timer ?a) = now + scast d * 1000000" "pending (timer ?a) = []"
    "ready (ioContext ?a) = []" "\<not> stopped (ioContext ?a)"
    using assms AsyncWait_arm_state [of now d s] by (simp_all add: idle_def)
  have reg: "expiry (timer ?r) = now + scast d * 1000000"
    "pending (timer ?r) = [AsyncWaitLambda h]"
    "ready (ioContext ?r) = []" "\<not> stopped (ioContext ?r)"
    using arm AsyncWait_register_state [of h ?a] by simp_all
  have ran: "snd (AsyncWait_run (?r, acts)) = acts @ [h]"
    "stopped (ioContext (fst (AsyncWait_run (?r, acts))))"
    "pending (timer (fst (AsyncWait_run (?r, acts)))) = []"
    using AsyncWait_run_state [OF reg(4) reg(3) reg(2), of acts] by simp_all
  have fin: "expiry (timer (fst (AsyncWait now d h (s, acts)))) = now + scast d * 1000000"
    by (rule AsyncWait_expiry)
  have order: "AsyncWait now d h (s, acts) = AsyncWait_reset (AsyncWait_run (?r, acts))"
    by (simp add: AsyncWait_def)
  have ns: "\<not> stopped (ioContext (fst (AsyncWait now d h (s0, acts))))"
    by (rule AsyncWait_not_stopped)
  have idle1: "idle (fst (AsyncWait now d h (s, acts)))"
    using assms by (rule idle_AsyncWait)
  have once: "snd (AsyncWait now d h (s, acts)) = acts @ [h]"
    using assms by (simp add: AsyncWait_idle)
  have many: "idle (fst (AsyncWait_all calls (s, acts)))"
    "snd (AsyncWait_all calls (s, acts)) = acts @ map (\<lambda>(now, d, h). h) calls"
    using AsyncWait_all_idle [OF assms, of calls acts] by simp_all
  have ints: "sint (expiry (timer ?a)) = sint now + sint d * 1000000 \<and>
      sint (expiry (timer (fst (AsyncWait now d h (s, acts))))) = sint now + sint d * 1000000"
    if "0 \<le> sint now" "sint now < 2 ^ 62"
    using sint_reading_plus_milliseconds [OF that, of d] by (simp add: arm(1) fin)
  show ?thesis
    by (intro conjI impI order ns idle1 once many arm(1) arm(2) reg(1) reg(2) ran fin)
      (use ints in simp_all)
qed

text \<open>
  The scenario of the specification: \<^verbatim>\<open>AsyncWait(50, h1)\<close> then \<^verbatim>\<open>AsyncWait(30, h2)\<close> on
  a fresh object, the first at a clock reading of 1000 nanoseconds: it arms the handle
  at 50001000 nanoseconds.
\<close>

theorem AsyncWait_sequential_witness:
  "idle (SteadyTimer_ctor :: string SteadyTimer) \<and>
   0 \<le> sint (1000 :: time_point) \<and> sint (1000 :: time_point) < 2 ^ 62 \<and>
   sint (expiry (timer (AsyncWait_arm 1000 50 (SteadyTimer_ctor :: string SteadyTimer)))) =
     50001000 \<and>
   sint (expiry (timer (fst (AsyncWait 1000 50 ''h1''
     (SteadyTimer_ctor :: string SteadyTimer, []))))) = 50001000 \<and>
   snd (AsyncWait 1000 50 ''h1'' (SteadyTimer_ctor, [])) = [''h1''] \<and>
   snd (AsyncWait_all [(1000, 50, ''h1''), (60000000, 30, ''h2'')] (SteadyTimer_ctor, [])) =
     [''h1'', ''h2''] \<and>
   idle (fst (AsyncWait_all [(1000, 50, ''h1''), (60000000, 30, ''h2'')]
     (SteadyTimer_ctor :: string SteadyTimer, [])))"
proof -
  let ?calls = "[(1000 :: time_point, 50 :: int32, ''h1''), (60000000, 30, ''h2'')]"
  let ?c = "SteadyTimer_ctor :: string SteadyTimer"
  note w = AsyncWait_sequential [OF idle_ctor,
      where calls = ?calls and acts = "[]" and now = 1000 and d = 50 and h = "''h1''"
        and ?s0.0 = ?c]
  have b: "0 \<le> sint (1000 :: time_point) \<and> sint (1000 :: time_point) < 2 ^ 62"
    by simp
  from w b have
    "sint (expiry (timer (AsyncWait_arm 1000 50 ?c))) =
       sint (1000 :: time_point) + sint (50 :: int32) * 1000000"
    "sint (expiry (timer (fst (AsyncWait 1000 50 ''h1'' (?c, []))))) =
       sint (1000 :: time_point) + sint (50 :: int32) * 1000000"
    by blast+
  moreover from w have
    "snd (AsyncWait 1000 50 ''h1'' (?c, [])) = [] @ [''h1'']"
    "snd (AsyncWait_all ?calls (?c, [])) = [] @ map (\<lambda>(now, d, h). h) ?calls"
    "idle (fst (AsyncWait_all ?calls (?c, [])))"
    by blast+
  ultimately show ?thesis
    using b idle_ctor [where ?'a = string] by simp
qed

subsection \<open>Cancellation\<close>

text \<open>
  Claim C4. \<^verbatim>\<open>Cancel()\<close> with no wait pending returns 0. With exactly one wait pending
  it returns 1, nothing stays pending, and the wait's completion is posted to the
  reactor with the cancelled indicator; the next pass of the reactor then runs that
  completion without invoking the handler, and leaves nothing ready or pending that
  could invoke it later.
\<close>

theorem Cancel_count:
  "(pending (timer s) = [] \<longrightarrow> fst (Cancel s) = 0) \<and>
   (pending (timer s) = [AsyncWaitLambda h] \<longrightarrow>
      fst (Cancel s) = 1 \<and>
      pending (timer (snd (Cancel s))) = [] \<and>
      ready (ioContext (snd (Cancel s))) =
        ready (ioContext s) @ [(AsyncWaitLambda h, operation_aborted)]) \<and>
   (pending (timer s) = [AsyncWaitLambda h] \<and> ready (ioContext s) = [] \<and>
    \<not> stopped (ioContext s) \<longrightarrow>
      snd (AsyncWait_run (snd (Cancel s), acts)) = acts \<and>
      ready (ioContext (fst (AsyncWait_run (snd (Cancel s), acts)))) = [] \<and>
      pending (timer (fst (AsyncWait_run (snd (Cancel s), acts)))) = [])"
  by (simp add: Cancel_def cancel_def AsyncWait_run_def run_def)

text \<open>
  A fresh object has nothing pending; an object on which lines 151 to 158 of
  \<^verbatim>\<open>AsyncWait\<close> have run has exactly one wait pending.
\<close>

theorem Cancel_count_witness:
  "pending (timer (SteadyTimer_ctor :: string SteadyTimer)) = [] \<and>
   fst (Cancel (SteadyTimer_ctor :: string SteadyTimer)) = 0 \<and>
   pending (timer (AsyncWait_register ''h'' (AsyncWait_arm 1000 1000 SteadyTimer_ctor))) =
     [AsyncWaitLambda ''h''] \<and>
   ready (ioContext (AsyncWait_register ''h'' (AsyncWait_arm 1000 1000 SteadyTimer_ctor))) = [] \<and>
   \<not> stopped (ioContext (AsyncWait_register ''h'' (AsyncWait_arm 1000 1000 SteadyTimer_ctor))) \<and>
   fst (Cancel (AsyncWait_register ''h'' (AsyncWait_arm 1000 1000 SteadyTimer_ctor))) = 1 \<and>
   snd (AsyncWait_run
         (snd (Cancel (AsyncWait_register ''h'' (AsyncWait_arm 1000 1000 SteadyTimer_ctor))),
          [])) = []"
proof -
  let ?s = "AsyncWait_register ''h''
    (AsyncWait_arm 1000 1000 (SteadyTimer_ctor :: string SteadyTimer))"
  have p0: "pending (timer (SteadyTimer_ctor :: string SteadyTimer)) = []"
    by (simp add: SteadyTimer_ctor_def)
  have p1: "pending (timer ?s) = [AsyncWaitLambda ''h'']"
    and r1: "ready (ioContext ?s) = []" and n1: "\<not> stopped (ioContext ?s)"
    by (simp_all add: SteadyTimer_ctor_def AsyncWait_register_def AsyncWait_arm_def prim_defs)
  from Cancel_count [of "SteadyTimer_ctor :: string SteadyTimer" "''h''" "[]"] p0
  have a: "fst (Cancel (SteadyTimer_ctor :: string SteadyTimer)) = 0" by simp
  from Cancel_count [of ?s "''h''" "[]"] p1 r1 n1
  have b: "fst (Cancel ?s) = 1" "snd (AsyncWait_run (snd (Cancel ?s), [])) = []"
    by simp_all
  from p0 p1 r1 n1 a b show ?thesis by simp
qed

subsection \<open>Relative deadlines\<close>

lemma ExpiresFromNow_expiry:
  "expiry (timer (ExpiresFromNow now d s)) = now + chrono_milliseconds d"
  by (simp add: ExpiresFromNow_def expires_from_now_def expires_at_def cancel_def)

text \<open>
  Claim C6. For every 32-bit \<open>durationMs\<close>, zero and negative included, and a clock
  reading between 0 and \<open>2\<^sup>6\<^sup>2\<close> nanoseconds (146 years after the clock's epoch),
  \<^verbatim>\<open>ExpiresFromNow(durationMs)\<close> leaves the deadline handle armed at exactly the reading
  plus \<open>durationMs\<close> milliseconds, whatever expiry it held before.
\<close>

theorem ExpiresFromNow_arms:
  assumes "0 \<le> sint now" and "sint now < 2 ^ 62"
  shows "sint (expiry (timer (ExpiresFromNow now d s))) = sint now + sint d * 1000000"
proof -
  have "- (2 ^ 31) \<le> sint d" "sint d < 2 ^ 31"
    using sint_ge [of d] sint_lt [of d] by simp_all
  then have "- (2 ^ 63) \<le> sint now + sint d * 1000000" "sint now + sint d * 1000000 < 2 ^ 63"
    using assms by simp_all
  then show ?thesis
    by (simp add: ExpiresFromNow_expiry sint_word_add sint_chrono_milliseconds
        signed_take_bit_int_eq_self)
qed

text \<open>
  At a clock reading of 7 seconds: 250 milliseconds, 0 milliseconds, and -250
  milliseconds on a handle already armed.
\<close>

theorem ExpiresFromNow_arms_witness:
  "0 \<le> sint (7000000000 :: time_point) \<and> sint (7000000000 :: time_point) < 2 ^ 62 \<and>
   sint (expiry (timer (ExpiresFromNow 7000000000 250 (SteadyTimer_ctor :: unit SteadyTimer)))) =
     7250000000 \<and>
   sint (expiry (timer (ExpiresFromNow 7000000000 0 (SteadyTimer_ctor :: unit SteadyTimer)))) =
     7000000000 \<and>
   sint (expiry (timer (ExpiresFromNow 7000000000 (- 250)
     (ExpiresFromNow 7000000000 250 (SteadyTimer_ctor :: unit SteadyTimer))))) = 6750000000"
  using ExpiresFromNow_arms [of 7000000000 250 "SteadyTimer_ctor :: unit SteadyTimer"]
    ExpiresFromNow_arms [of 7000000000 0 "SteadyTimer_ctor :: unit SteadyTimer"]
    ExpiresFromNow_arms [of 7000000000 "- 250"
      "ExpiresFromNow 7000000000 250 (SteadyTimer_ctor :: unit SteadyTimer)"]
  by simp

text \<open>
  Claim C7. The arming step of \<^verbatim>\<open>AsyncWait(durationMs, handler)\<close> (line 151) leaves the
  object exactly as \<^verbatim>\<open>ExpiresFromNow(durationMs)\<close> at the same clock reading does. Both
  arm the deadline handle at the reading plus the sign-extended \<open>durationMs\<close> times
  \<open>10\<^sup>6\<close> nanoseconds, and that is still the expiry when \<^verbatim>\<open>AsyncWait\<close> returns; for a
  reading between 0 and \<open>2\<^sup>6\<^sup>2\<close> nanoseconds the armed instant is, as an integer,
  the reading plus \<open>durationMs\<close> milliseconds.
\<close>

theorem AsyncWait_arm_is_ExpiresFromNow:
  "AsyncWait_arm now d s = ExpiresFromNow now d s \<and>
   expiry (timer (AsyncWait_arm now d s)) = now + scast d * 1000000 \<and>
   expiry (timer (ExpiresFromNow now d s)) = now + scast d * 1000000 \<and>
   expiry (timer (fst (AsyncWait now d h (s, acts)))) = expiry (timer (ExpiresFromNow now d s)) \<and>
   (0 \<le> sint now \<and> sint now < 2 ^ 62 \<longrightarrow>
      sint (expiry (timer (AsyncWait_arm now d s))) = sint now + sint d * 1000000 \<and>
      sint (expiry (timer (ExpiresFromNow now d s))) = sint now + sint d * 1000000 \<and>
      sint (expiry (timer (fst (AsyncWait now d h (s, acts))))) = sint now + sint d * 1000000)"
proof -
  have same: "AsyncWait_arm now d s = ExpiresFromNow now d s"
    by (simp add: AsyncWait_arm_def ExpiresFromNow_def expires_after_def expires_from_now_def)
  have arm: "expiry (timer (AsyncWait_arm now d s)) = now + scast d * 1000000"
    using AsyncWait_arm_state [of now d s] by simp
  have efn: "expiry (timer (ExpiresFromNow now d s)) = now + scast d * 1000000"
    using arm by (simp add: same)
  have fin: "expiry (timer (fst (AsyncWait now d h (s, acts)))) = now + scast d * 1000000"
    by (rule AsyncWait_expiry)
  have ints: "sint (now + scast d * 1000000) = sint now + sint d * 1000000"
    if "0 \<le> sint now \<and> sint now < 2 ^ 62"
    using that sint_reading_plus_milliseconds [of now d] by simp
  show ?thesis
    using ints by (simp add: same efn fin)
qed

text \<open>
  At a clock reading of 7 seconds, 250 and -250 milliseconds: both paths arm the handle
  at 7.25 and at 6.75 seconds.
\<close>

theorem AsyncWait_arm_is_ExpiresFromNow_witness:
  "0 \<le> sint (7000000000 :: time_point) \<and> sint (7000000000 :: time_point) < 2 ^ 62 \<and>
   sint (expiry (timer (AsyncWait_arm 7000000000 250 (SteadyTimer_ctor :: string SteadyTimer)))) =
     7250000000 \<and>
   sint (expiry (timer (ExpiresFromNow 7000000000 250 (SteadyTimer_ctor :: string SteadyTimer)))) =
     7250000000 \<and>
   sint (expiry (timer (fst (AsyncWait 7000000000 250 ''h''
     (SteadyTimer_ctor :: string SteadyTimer, []))))) = 7250000000 \<and>
   sint (expiry (timer (AsyncWait_arm 7000000000 (- 250)
     (SteadyTimer_ctor :: string SteadyTimer)))) = 6750000000 \<and>
   sint (expiry (timer (ExpiresFromNow 7000000000 (- 250)
     (SteadyTimer_ctor :: string SteadyTimer)))) = 6750000000"
  using AsyncWait_arm_is_ExpiresFromNow [of 7000000000 250
      "SteadyTimer_ctor :: string SteadyTimer" "''h''" "[]"]
    AsyncWait_arm_is_ExpiresFromNow [of 7000000000 "- 250"
      "SteadyTimer_ctor :: string SteadyTimer" "''h''" "[]"]
  by simp

subsection \<open>Absolute deadlines\<close>

lemma ExpiresAt_expiry:
  assumes "504911232000000000 \<le> utcTicks dt"
  shows "ExpiresAt (Some dt) s =
     Inr (s\<lparr>ioContext := (ioContext s)\<lparr>ready := ready (ioContext s) @
              map (\<lambda>w. (w, operation_aborted)) (pending (timer s))\<rparr>,
            timer := \<lparr>expiry = from_time_t (word_of_int (utcTicks dt - 504911232000000000)),
              pending = []\<rparr>\<rparr>)"
  using assms by (simp add: ExpiresAt_def ToFileTime_def prim_defs)

lemma ExpiresAt_errors:
  "ExpiresAt None s = Inl NullReferenceException"
  "utcTicks dt < 504911232000000000 \<Longrightarrow> ExpiresAt (Some dt) s = Inl ArgumentOutOfRangeException"
  by (simp_all add: ExpiresAt_def ToFileTime_def)

text \<open>
  Two timestamps \<open>k\<close> ticks apart are armed \<open>10\<^sup>7 k\<close> ticks apart: the file-time ticks
  are taken for seconds.
\<close>

lemma ExpiresAt_scales_differences:
  "from_time_t (word_of_int (a + k - 504911232000000000)) -
     from_time_t (word_of_int (a - 504911232000000000)) = word_of_int k * 10000000 \<and>
   system_time_of \<lparr>utcTicks = a + k\<rparr> - system_time_of \<lparr>utcTicks = a\<rparr> = word_of_int k"
  by (simp add: from_time_t_def system_time_of_def algebra_simps)

text \<open>
  Claim C5. The claim is that \<^verbatim>\<open>ExpiresAt\<close> arms the deadline at the instant the
  timestamp denotes. The source does not: at 2026-01-01T00:00:00Z and one second
  later, \<^verbatim>\<open>ToFileTime\<close> returns 134116992000000000 and 134116992010000000
  (100-nanosecond ticks since 1601), which \<^verbatim>\<open>from_time_t\<close> takes for seconds since 1970.
  The tick counts armed are not those of the two instants (17672256000000000 and
  17672256010000000 ticks after 1970), and they lie \<open>10\<^sup>1\<^sup>4\<close> ticks apart where the
  instants lie \<open>10\<^sup>7\<close> ticks (one second) apart, so no offset between the clocks
  reconciles them.
\<close>

theorem ExpiresAt_takes_ticks_for_seconds:
  "ExpiresAt (Some \<lparr>utcTicks = 639028224000000000\<rparr>) (SteadyTimer_ctor :: unit SteadyTimer) =
     Inr (SteadyTimer_ctor\<lparr>timer := \<lparr>expiry = from_time_t 134116992000000000, pending = []\<rparr>\<rparr>) \<and>
   ExpiresAt (Some \<lparr>utcTicks = 639028224010000000\<rparr>) (SteadyTimer_ctor :: unit SteadyTimer) =
     Inr (SteadyTimer_ctor\<lparr>timer := \<lparr>expiry = from_time_t 134116992010000000, pending = []\<rparr>\<rparr>) \<and>
   sint (from_time_t 134116992000000000) = - 607879052950241280 \<and>
   sint (from_time_t 134116992010000000) = - 607779052950241280 \<and>
   sint (system_time_of \<lparr>utcTicks = 639028224000000000\<rparr>) = 17672256000000000 \<and>
   sint (system_time_of \<lparr>utcTicks = 639028224010000000\<rparr>) = 17672256010000000 \<and>
   sint (from_time_t 134116992010000000 - from_time_t 134116992000000000) = 100000000000000 \<and>
   sint (system_time_of \<lparr>utcTicks = 639028224010000000\<rparr> -
         system_time_of \<lparr>utcTicks = 639028224000000000\<rparr>) = 10000000"
  by (simp add: ExpiresAt_def ToFileTime_def prim_defs SteadyTimer_ctor_def from_time_t_def
      system_time_of_def)

end
